theory Spec2Isabelle
  imports Complex_Main "HOL-Library.List_Lexorder"
begin

section \<open>Values of the platform\<close>

text \<open>
  A JavaScript string is a sequence of UTF-16 code units; a code unit is modelled by its
  number. \<open>js\<close> turns an ASCII literal into such a sequence.

  A JavaScript \<open>number\<close> is a finite value, an infinity or \<open>NaN\<close>; the finite
  values are given by the rational they stand for (the two zeros are one value). An
  optional argument or field (\<open>undefined\<close>, \<open>null\<close>) is \<open>None\<close>.
\<close>

type_synonym jsstring = "nat list"

datatype jsnum = Num rat | PosInfinity | NegInfinity | NaN

definition js :: "string \<Rightarrow> jsstring" where
  "js s = map of_char s"

text \<open>
  \<open>if (x)\<close> on an optional number: \<open>undefined\<close>, \<open>0\<close> and \<open>NaN\<close> are falsy.
\<close>

fun truthyNum :: "jsnum option \<Rightarrow> jsnum option" where
  "truthyNum None = None"
| "truthyNum (Some v) = (if v = Num 0 \<or> v = NaN then None else Some v)"

text \<open>\<open>if (s)\<close> on an optional string: \<open>undefined\<close> and the empty string are falsy.\<close>

fun truthyStr :: "jsstring option \<Rightarrow> jsstring option" where
  "truthyStr None = None"
| "truthyStr (Some s) = (if s = [] then None else Some s)"

text \<open>
  The arithmetic of the platform (binary64) is a parameter of the functions that
  compute: \<open>num_add a b\<close> is \<open>a + b\<close>, \<open>num_halve x\<close> is \<open>x / 2\<close> and \<open>Math_round\<close>
  is \<open>Math.round\<close>.
\<close>

record NumberOps =
  num_add :: "jsnum \<Rightarrow> jsnum \<Rightarrow> jsnum"
  num_halve :: "jsnum \<Rightarrow> jsnum"
  Math_round :: "jsnum \<Rightarrow> jsnum"

text \<open>
  An instance for the examples: the arithmetic without rounding of the finite results.
  Binary64 gives the same wherever the exact result can be represented, as with integers
  below \<open>2^53\<close>; \<open>Math.round\<close> takes the nearest integer, a tie going up.
\<close>

fun exact_add :: "jsnum \<Rightarrow> jsnum \<Rightarrow> jsnum" where
  "exact_add NaN b = NaN"
| "exact_add a NaN = NaN"
| "exact_add PosInfinity NegInfinity = NaN"
| "exact_add NegInfinity PosInfinity = NaN"
| "exact_add PosInfinity b = PosInfinity"
| "exact_add NegInfinity b = NegInfinity"
| "exact_add (Num a) PosInfinity = PosInfinity"
| "exact_add (Num a) NegInfinity = NegInfinity"
| "exact_add (Num a) (Num b) = Num (a + b)"

fun exact_halve :: "jsnum \<Rightarrow> jsnum" where
  "exact_halve (Num a) = Num (a / 2)"
| "exact_halve x = x"

fun exact_round :: "jsnum \<Rightarrow> jsnum" where
  "exact_round (Num a) = Num (of_int \<lfloor>a + 1 / 2\<rfloor>)"
| "exact_round x = x"

definition exactOps :: NumberOps where
  "exactOps = \<lparr> num_add = exact_add, num_halve = exact_halve, Math_round = exact_round \<rparr>"

text \<open>
  \<open>String.prototype.toLowerCase\<close> maps every cased code point of Unicode. The field
  mappers and the tech-stack normalizer take it as a parameter \<open>lower\<close>, of which the
  properties below are used: on a text of ASCII characters it turns \<open>A\<close>-\<open>Z\<close> into
  \<open>a\<close>-\<open>z\<close> and leaves the rest (\<open>lowersAscii\<close>); lowering a lowered text changes
  nothing, and lowering goes through trimming (\<open>lowerStable\<close>).

  \<open>toLowerCase\<close> is an instance, exact on the code units up to U+00FF (ASCII and
  Latin-1): \<open>A\<close>-\<open>Z\<close> and the accented capitals U+00C0-U+00DE (U+00D7, the
  multiplication sign, apart) move up by 32; the code units above U+00FF are kept as
  they are. It serves for the examples and for the date normalizer.
\<close>

definition asciiLower :: "nat \<Rightarrow> nat" where
  "asciiLower c = (if 65 \<le> c \<and> c \<le> 90 then c + 32 else c)"

definition lowersAscii :: "(jsstring \<Rightarrow> jsstring) \<Rightarrow> bool" where
  "lowersAscii lower \<longleftrightarrow> (\<forall>s. list_all (\<lambda>c. c < 128) s \<longrightarrow> lower s = map asciiLower s)"

definition lowerUnit :: "nat \<Rightarrow> nat" where
  "lowerUnit c =
     (if 65 \<le> c \<and> c \<le> 90 then c + 32
      else if 192 \<le> c \<and> c \<le> 222 \<and> c \<noteq> 215 then c + 32
      else c)"

definition toLowerCase :: "jsstring \<Rightarrow> jsstring" where
  "toLowerCase s = map lowerUnit s"

text \<open>
  \<open>String.prototype.trim\<close> removes the white space and line terminators of ECMAScript
  from both ends.
\<close>

definition isWhiteSpace :: "nat \<Rightarrow> bool" where
  "isWhiteSpace c =
     (c \<in> set [9, 10, 11, 12, 13, 32, 160, 5760, 8232, 8233, 8239, 8287, 12288, 65279]
      \<or> (8192 \<le> c \<and> c \<le> 8202))"

definition trim :: "jsstring \<Rightarrow> jsstring" where
  "trim s = rev (dropWhile isWhiteSpace (rev (dropWhile isWhiteSpace s)))"

definition lowerStable :: "(jsstring \<Rightarrow> jsstring) \<Rightarrow> bool" where
  "lowerStable lower \<longleftrightarrow>
     (\<forall>s. lower (lower s) = lower s) \<and> (\<forall>s. lower (trim s) = trim (lower s))"

text \<open>\<open>s.includes(k)\<close>: \<open>k\<close> occurs in \<open>s\<close> as a contiguous run.\<close>

fun startsWith :: "jsstring \<Rightarrow> jsstring \<Rightarrow> bool" where
  "startsWith s [] = True"
| "startsWith [] (k # ks) = False"
| "startsWith (c # cs) (k # ks) = (c = k \<and> startsWith cs ks)"

fun includes_js :: "jsstring \<Rightarrow> jsstring \<Rightarrow> bool" where
  "includes_js [] k = (k = [])"
| "includes_js (c # cs) k = (startsWith (c # cs) k \<or> includes_js cs k)"

text \<open>
  \<open>Array.from(new Set(xs))\<close>: the elements of \<open>xs\<close> in the order of their first
  occurrence, each once.
\<close>

definition Set_from :: "'a list \<Rightarrow> 'a list" where
  "Set_from xs = fold (\<lambda>x acc. if x \<in> set acc then acc else acc @ [x]) xs []"

section \<open>Enumerations (types/job.types.ts)\<close>

datatype GermanLevel = NONE | A1 | A2 | B1 | B2 | C1 | C2 | NATIVE

datatype EducationLevel = NONE | HAUPTSCHULE | REALSCHULE | ABITUR | FACHABITUR

datatype TariffType =
  NONE | IG_METALL | VERDI | IG_BCE | IG_BAU | NGG | TVOED | TV_L
  | IT_TARIFVERTRAG | EINZELHANDEL | BANKING | OTHER

section \<open>Tariff salary table (utils/tariff-salary-mapper.ts)\<close>

fun TARIFF_FIRST_YEAR_SALARIES :: "TariffType \<Rightarrow> jsnum option" where
  "TARIFF_FIRST_YEAR_SALARIES TariffType.NONE = None"
| "TARIFF_FIRST_YEAR_SALARIES IG_METALL = Some (Num 1150)"
| "TARIFF_FIRST_YEAR_SALARIES VERDI = Some (Num 1050)"
| "TARIFF_FIRST_YEAR_SALARIES IG_BCE = Some (Num 1100)"
| "TARIFF_FIRST_YEAR_SALARIES IG_BAU = Some (Num 920)"
| "TARIFF_FIRST_YEAR_SALARIES NGG = Some (Num 900)"
| "TARIFF_FIRST_YEAR_SALARIES TVOED = Some (Num 1068)"
| "TARIFF_FIRST_YEAR_SALARIES TV_L = Some (Num 1068)"
| "TARIFF_FIRST_YEAR_SALARIES IT_TARIFVERTRAG = Some (Num 1150)"
| "TARIFF_FIRST_YEAR_SALARIES EINZELHANDEL = Some (Num 850)"
| "TARIFF_FIRST_YEAR_SALARIES BANKING = Some (Num 1150)"
| "TARIFF_FIRST_YEAR_SALARIES OTHER = Some (Num 950)"

fun getTariffFirstYearSalary :: "TariffType option \<Rightarrow> jsnum option" where
  "getTariffFirstYearSalary None = None"
| "getTariffFirstYearSalary (Some t) =
     (if t = TariffType.NONE then None else truthyNum (TARIFF_FIRST_YEAR_SALARIES t))"

section \<open>Salary resolver (utils/salary-resolver.ts)\<close>

datatype Source = scraped | company_website | tariff_standard | none

record SalaryResolutionResult =
  firstYearSalary :: "jsnum option"
  thirdYearSalary :: "jsnum option"
  average :: "jsnum option"
  source :: Source
  tariffUsed :: "TariffType option"

text \<open>
  The company-website fetch is an external capability. Of the data it returns the
  resolver reads the first-year salary only; the call may also throw.
\<close>

record CompanyBenefitsData =
  cb_firstYearSalary :: "jsnum option"

datatype FetchOutcome = Throws | Returns "CompanyBenefitsData option"

type_synonym fetcher = "jsstring \<Rightarrow> jsstring \<Rightarrow> FetchOutcome"

text \<open>What step 3 reads off a fetch: \<open>companyData?.firstYearSalary\<close>, inside the \<open>try\<close>.\<close>

fun foundSalary :: "FetchOutcome \<Rightarrow> jsnum option" where
  "foundSalary Throws = None"
| "foundSalary (Returns None) = None"
| "foundSalary (Returns (Some d)) = truthyNum (cb_firstYearSalary d)"

text \<open>
  The ternary \<open>scrapedThirdYear ? Math.round((first + scrapedThirdYear) / 2) : first\<close>
  of every branch that has a first-year value; its second argument is the third-year
  value when that is truthy.
\<close>

fun averageOf :: "NumberOps \<Rightarrow> jsnum \<Rightarrow> jsnum option \<Rightarrow> jsnum" where
  "averageOf ops first None = first"
| "averageOf ops first (Some third) = Math_round ops (num_halve ops (num_add ops first third))"

text \<open>
  The full resolver. Beside its result it returns the list of the fetches it made
  (company name and link of each), so that "no network call" can be stated.
\<close>

definition resolveFirstYearSalary ::
  "NumberOps \<Rightarrow> fetcher \<Rightarrow> jsnum option \<Rightarrow> jsnum option \<Rightarrow> TariffType option
     \<Rightarrow> jsstring option \<Rightarrow> jsstring option
     \<Rightarrow> SalaryResolutionResult \<times> (jsstring \<times> jsstring) list" where
  "resolveFirstYearSalary ops fetchCompanyBenefits scrapedFirstYear scrapedThirdYear tariffType
       companyName originalLink =
    (case truthyNum scrapedFirstYear of
       Some first \<Rightarrow>
         (\<lparr> firstYearSalary = Some first,
            thirdYearSalary = truthyNum scrapedThirdYear,
            average = Some (averageOf ops first (truthyNum scrapedThirdYear)),
            source = scraped,
            tariffUsed = None \<rparr>, [])
     | None \<Rightarrow>
        if tariffType = None \<or> tariffType = Some TariffType.NONE then
          (\<lparr> firstYearSalary = None, thirdYearSalary = None, average = None,
             source = none, tariffUsed = None \<rparr>, [])
        else
          let calls = (case (truthyStr companyName, truthyStr originalLink) of
                         (Some cn, Some ol) \<Rightarrow> [(cn, ol)]
                       | _ \<Rightarrow> []);
              found = (case calls of
                         [] \<Rightarrow> None
                       | (cn, ol) # _ \<Rightarrow> foundSalary (fetchCompanyBenefits cn ol))
          in case found of
               Some companySalary \<Rightarrow>
                 (\<lparr> firstYearSalary = Some companySalary,
                    thirdYearSalary = truthyNum scrapedThirdYear,
                    average = Some (averageOf ops companySalary (truthyNum scrapedThirdYear)),
                    source = company_website,
                    tariffUsed = tariffType \<rparr>, calls)
             | None \<Rightarrow>
                 (case truthyNum (getTariffFirstYearSalary tariffType) of
                    Some tariffSalary \<Rightarrow>
                      (\<lparr> firstYearSalary = Some tariffSalary,
                         thirdYearSalary = truthyNum scrapedThirdYear,
                         average = Some (averageOf ops tariffSalary (truthyNum scrapedThirdYear)),
                         source = tariff_standard,
                         tariffUsed = tariffType \<rparr>, calls)
                  | None \<Rightarrow>
                      (\<lparr> firstYearSalary = None, thirdYearSalary = None, average = None,
                         source = none, tariffUsed = tariffType \<rparr>, calls)))"

definition resolveFirstYearSalaryFast ::
  "NumberOps \<Rightarrow> jsnum option \<Rightarrow> jsnum option \<Rightarrow> TariffType option
     \<Rightarrow> SalaryResolutionResult" where
  "resolveFirstYearSalaryFast ops scrapedFirstYear scrapedThirdYear tariffType =
    (case truthyNum scrapedFirstYear of
       Some first \<Rightarrow>
         \<lparr> firstYearSalary = Some first,
           thirdYearSalary = truthyNum scrapedThirdYear,
           average = Some (averageOf ops first (truthyNum scrapedThirdYear)),
           source = scraped,
           tariffUsed = None \<rparr>
     | None \<Rightarrow>
        if tariffType = None \<or> tariffType = Some TariffType.NONE then
          \<lparr> firstYearSalary = None, thirdYearSalary = None, average = None,
            source = none, tariffUsed = None \<rparr>
        else
          (case truthyNum (getTariffFirstYearSalary tariffType) of
             Some tariffSalary \<Rightarrow>
               \<lparr> firstYearSalary = Some tariffSalary,
                 thirdYearSalary = truthyNum scrapedThirdYear,
                 average = Some (averageOf ops tariffSalary (truthyNum scrapedThirdYear)),
                 source = tariff_standard,
                 tariffUsed = tariffType \<rparr>
           | None \<Rightarrow>
               \<lparr> firstYearSalary = None, thirdYearSalary = None, average = None,
                 source = none, tariffUsed = tariffType \<rparr>))"

section \<open>Field mapper (utils/gemini-pipeline.ts)\<close>

text \<open>
  The three mappers take the free text of the extraction reply, \<open>string | null | undefined\<close>,
  and \<open>toLowerCase\<close> as the parameter \<open>toLower\<close>. None of them has a \<open>throw\<close>; on
  a string every method they call returns.
\<close>

definition mapGermanLevel :: "(jsstring \<Rightarrow> jsstring) \<Rightarrow> jsstring option \<Rightarrow> GermanLevel" where
  "mapGermanLevel toLower input =
    (case truthyStr input of
       None \<Rightarrow> GermanLevel.NONE
     | Some i \<Rightarrow>
        if i = js ''null'' \<or> i = js ''not mentioned'' \<or> i = js ''none'' \<or> i = js ''None''
        then GermanLevel.NONE
        else
          let lower = toLower i in
          if includes_js lower (js ''muttersprache'') \<or> includes_js lower (js ''native'')
             \<or> includes_js lower (js ''fluent'') then C2
          else if includes_js lower (js ''c2'') then C2
          else if includes_js lower (js ''c1'') then C1
          else if includes_js lower (js ''verhandlungssicher'') then C1
          else if includes_js lower (js ''b2'') then B2
          else if includes_js lower (js ''good'') \<or> includes_js lower (js ''sehr gut'')
             \<or> includes_js lower (js ''gut'') then B2
          else if includes_js lower (js ''b1'') then B1
          else if includes_js lower (js ''intermediate'') \<or> includes_js lower (js ''mittelstufe'')
            then B1
          else if includes_js lower (js ''a2'') then A2
          else if includes_js lower (js ''a1'') then A1
          else GermanLevel.NONE)"

definition mapEducationLevel ::
  "(jsstring \<Rightarrow> jsstring) \<Rightarrow> jsstring option \<Rightarrow> EducationLevel" where
  "mapEducationLevel toLower input =
    (case truthyStr input of
       None \<Rightarrow> REALSCHULE
     | Some i \<Rightarrow>
        let lower = toLower i in
        if includes_js lower (js ''abitur'') \<and> \<not> includes_js lower (js ''fach'') then ABITUR
        else if includes_js lower (js ''fachabitur'') then FACHABITUR
        else if includes_js lower (js ''realschule'') then REALSCHULE
        else if includes_js lower (js ''hauptschule'') then HAUPTSCHULE
        else if includes_js lower (js ''keine'') \<or> includes_js lower (js ''none'')
          then EducationLevel.NONE
        else REALSCHULE)"

text \<open>The keywords with a letter outside ASCII: \<open>tv\<close>U+00F6\<open>d\<close>, U+00F6\<open>ffentlich\<close>, \<open>l\<close>U+00E4\<open>nder\<close>.\<close>

definition kw_tvoed :: jsstring where
  "kw_tvoed = js ''tv'' @ [246] @ js ''d''"

definition kw_oeffentlich :: jsstring where
  "kw_oeffentlich = [246] @ js ''ffentlich''"

definition kw_laender :: jsstring where
  "kw_laender = js ''l'' @ [228] @ js ''nder''"

definition mapTariffType :: "(jsstring \<Rightarrow> jsstring) \<Rightarrow> jsstring option \<Rightarrow> TariffType" where
  "mapTariffType toLower input =
    (case truthyStr input of
       None \<Rightarrow> TariffType.NONE
     | Some i \<Rightarrow>
        if i = js ''null'' \<or> i = js ''not mentioned'' \<or> i = js ''none'' \<or> i = js ''None''
        then TariffType.NONE
        else
          let lower = toLower i in
          if includes_js lower (js ''ig metall'') \<or> includes_js lower (js ''metall'') then IG_METALL
          else if includes_js lower (js ''ver.di'') \<or> includes_js lower (js ''verdi'') then VERDI
          else if includes_js lower (js ''ig bce'') \<or> includes_js lower (js ''chemie'')
             \<or> includes_js lower (js ''bergbau'') then IG_BCE
          else if includes_js lower (js ''ig bau'') \<or> includes_js lower (js ''bau'') then IG_BAU
          else if includes_js lower (js ''ngg'') \<or> includes_js lower (js ''nahrung'') then NGG
          else if includes_js lower kw_tvoed \<or> includes_js lower kw_oeffentlich then TVOED
          else if includes_js lower (js ''tv-l'') \<or> includes_js lower kw_laender then TV_L
          else if includes_js lower (js ''it tarif'') \<or> includes_js lower (js ''it-tarif'')
            then IT_TARIFVERTRAG
          else if includes_js lower (js ''einzelhandel'') \<or> includes_js lower (js ''handel'')
            then EINZELHANDEL
          else if includes_js lower (js ''bank'') \<or> includes_js lower (js ''sparkasse'') then BANKING
          else if includes_js lower (js ''tarif'') then OTHER
          else TariffType.NONE)"

section \<open>Tech-stack normalizer (utils/normalizer.ts)\<close>

text \<open>
  \<open>Array.prototype.sort\<close> without a comparator orders strings by their code units, a
  proper prefix first: the lexicographic order of \<open>jsstring\<close>.
\<close>

definition normalizeTechStack :: "(jsstring \<Rightarrow> jsstring) \<Rightarrow> jsstring list \<Rightarrow> jsstring list" where
  "normalizeTechStack toLower stack =
     sort (Set_from (filter (\<lambda>tech. length tech > 0)
                       (map (\<lambda>tech. trim (toLower tech)) stack)))"

section \<open>Mining orchestrator (miner.ts): the three phases of a run\<close>

text \<open>
  The store is the collection of job documents; of a document the run reads and writes
  the fields below. Scraping a new posting, analysing it and saving it are external: for
  each listed link the environment says how that pipeline ends. Store operations on
  existing documents are taken to succeed.
\<close>

record Job =
  job_id :: nat
  original_link :: "jsstring option"
  is_active :: bool
  vacancy_count :: "nat option"
  last_checked_at :: "int option"

record ListedJob =
  url :: jsstring
  vacancyCount :: "nat option"

record MinerConfig =
  maxJobsPerRun :: nat
  dryRun :: bool

datatype NewJobOutcome = ScrapeFailed | AnalysisFailed | SaveFailed | Saved

datatype Phase = PHASE1 | PHASE2 | PHASE3

text \<open>\<open>count || 1\<close> on an optional count.\<close>

fun orOne :: "nat option \<Rightarrow> nat" where
  "orOne None = 1"
| "orOne (Some c) = (if c = 0 then 1 else c)"

definition findOne :: "jsstring \<Rightarrow> Job list \<Rightarrow> Job option" where
  "findOne link db = find (\<lambda>j. original_link j = Some link) db"

definition findByIdAndUpdate :: "nat \<Rightarrow> (Job \<Rightarrow> Job) \<Rightarrow> Job list \<Rightarrow> Job list" where
  "findByIdAndUpdate i upd db = map (\<lambda>j. if job_id j = i then upd j else j) db"

definition freshId :: "Job list \<Rightarrow> nat" where
  "freshId db = Suc (fold max (map job_id db) 0)"

text \<open>Phase 2, the loop over the listed jobs; \<open>processed\<close> is the loop's counter.\<close>

fun processListedJobs ::
  "MinerConfig \<Rightarrow> (jsstring \<Rightarrow> NewJobOutcome) \<Rightarrow> int \<Rightarrow> ListedJob list \<Rightarrow> nat \<Rightarrow> Job list
     \<Rightarrow> Job list" where
  "processListedJobs config pipeline now [] processed db = db"
| "processListedJobs config pipeline now (listedJob # rest) processed db =
    (if processed \<ge> maxJobsPerRun config then db
     else
       case findOne (url listedJob) db of
         Some existingJob \<Rightarrow>
           let currentVacancy = orOne (vacancy_count existingJob);
               newVacancy = orOne (vacancyCount listedJob);
               db' =
                 (if dryRun config then db
                  else if currentVacancy \<noteq> newVacancy then
                    findByIdAndUpdate (job_id existingJob)
                      (\<lambda>j. j\<lparr>vacancy_count := Some newVacancy, is_active := True,
                              last_checked_at := Some now\<rparr>) db
                  else
                    findByIdAndUpdate (job_id existingJob)
                      (\<lambda>j. j\<lparr>is_active := True, last_checked_at := Some now\<rparr>) db)
           in processListedJobs config pipeline now rest (processed + 1) db'
       | None \<Rightarrow>
           (case pipeline (url listedJob) of
              ScrapeFailed \<Rightarrow> processListedJobs config pipeline now rest processed db
            | AnalysisFailed \<Rightarrow> processListedJobs config pipeline now rest processed db
            | SaveFailed \<Rightarrow> processListedJobs config pipeline now rest (processed + 1) db
            | Saved \<Rightarrow>
                processListedJobs config pipeline now rest (processed + 1)
                  (if dryRun config then db
                   else db @ [\<lparr> job_id = freshId db, original_link = Some (url listedJob),
                                is_active = True,
                                vacancy_count = Some (orOne (vacancyCount listedJob)),
                                last_checked_at = None \<rparr>])))"

text \<open>Phase 3: every active document whose link is not in the listing becomes inactive.\<close>

definition markUnlistedJobsAsInactive ::
  "MinerConfig \<Rightarrow> int \<Rightarrow> jsstring list \<Rightarrow> Job list \<Rightarrow> Job list" where
  "markUnlistedJobsAsInactive config now listedJobUrls db =
     fold (\<lambda>dbJob d.
             case truthyStr (original_link dbJob) of
               None \<Rightarrow> d
             | Some link \<Rightarrow>
                 if link \<in> set listedJobUrls then d
                 else if dryRun config then d
                 else findByIdAndUpdate (job_id dbJob)
                        (\<lambda>j. j\<lparr>is_active := False, last_checked_at := Some now\<rparr>) d)
          (filter is_active db) db"

text \<open>
  A run. The listing fetch of phase 1 either throws (\<open>Inl\<close>) or returns the listed jobs.
  The result is the store after the run and the phases the run entered.
\<close>

definition mine ::
  "MinerConfig \<Rightarrow> (jsstring \<Rightarrow> NewJobOutcome) \<Rightarrow> int \<Rightarrow> unit + ListedJob list \<Rightarrow> Job list
     \<Rightarrow> Job list \<times> Phase list" where
  "mine config pipeline now listing db =
    (case listing of
       Inl err \<Rightarrow> (db, [PHASE1])
     | Inr allListedJobs \<Rightarrow>
         if length allListedJobs = 0 then (db, [PHASE1])
         else
           let listedJobUrls = map url allListedJobs;
               db2 = processListedJobs config pipeline now allListedJobs 0 db;
               db3 = markUnlistedJobsAsInactive config now listedJobUrls db2
           in (db3, [PHASE1, PHASE2, PHASE3]))"

section \<open>Rate-limited extraction client (miner.ts): key rotation and quota tracking\<close>

text \<open>
  Per API key the miner keeps \<open>{lastCallTime, callCount, resetTime}\<close>; times are
  milliseconds.
\<close>

record KeyStats =
  lastCallTime :: int
  callCount :: nat
  resetTime :: int

text \<open>
  What a call of the extraction service and the handling of its reply come to: a
  normalized record, an error whose message names a quota (\<open>429\<close>, \<open>quota\<close>,
  \<open>Too Many Requests\<close>), or any other error.
\<close>

datatype Reply = ReplyOk | QuotaExceeded | OtherFailure

text \<open>
  \<open>Call k t\<close>: the service was called with key \<open>k\<close> at time \<open>t\<close>.
  \<open>Reset k t\<close>: the counter of key \<open>k\<close> was set back to zero at time \<open>t\<close>.
\<close>

datatype Event = Call nat int | Reset nat int


text \<open>
  The fields of the miner that the limiter uses, together with its environment: the
  clock, the time that passes before each reading of the clock (\<open>ticks\<close>, so the clock
  never runs backwards), the outcomes of the calls to come (\<open>replies\<close>), and the history
  of calls and resets (\<open>events\<close>, newest first), which the code does not keep and which
  only the properties read. The number \<open>n\<close> of configured keys is fixed by the
  constructor and passed to the functions that read \<open>geminiApiKeys.length\<close>.
\<close>

record Miner =
  currentKeyIndex :: nat
  keyStats :: "nat \<rightharpoonup> KeyStats"
  clock :: int
  ticks :: "nat list"
  replies :: "Reply list"
  events :: "Event list"


text \<open>
  \<open>Date.now()\<close>; when the list of ticks is used up no more time passes between readings.
  \<open>sleep\<close> is \<open>await new Promise(resolve => setTimeout(resolve, ms))\<close>.
\<close>

definition Date_now :: "Miner \<Rightarrow> int \<times> Miner" where
  "Date_now s =
     (case ticks s of
        [] \<Rightarrow> (clock s, s)
      | d # ds \<Rightarrow> (clock s + int d, s\<lparr>clock := clock s + int d, ticks := ds\<rparr>))"

definition sleep :: "int \<Rightarrow> Miner \<Rightarrow> Miner" where
  "sleep ms s = s\<lparr>clock := clock s + max 0 ms\<rparr>"

text \<open>The outcome of the next call; when none is listed the call succeeds.\<close>

definition nextReply :: "Miner \<Rightarrow> Reply \<times> Miner" where
  "nextReply s =
     (case replies s of
        [] \<Rightarrow> (ReplyOk, s)
      | r # rs \<Rightarrow> (r, s\<lparr>replies := rs\<rparr>))"




text \<open>\<open>stats.callCount = 0; stats.resetTime = Date.now()\<close> on the current key's counter.\<close>

definition resetWindow :: "KeyStats \<Rightarrow> Miner \<Rightarrow> Miner" where
  "resetWindow stats s =
     (let (t, s1) = Date_now s in
      s1\<lparr>keyStats := (keyStats s1)(currentKeyIndex s1 \<mapsto> stats\<lparr>callCount := 0, resetTime := t\<rparr>),
         events := Reset (currentKeyIndex s1) t # events s1\<rparr>)"

definition canUseCurrentKey :: "Miner \<Rightarrow> bool \<times> Miner" where
  "canUseCurrentKey s =
     (case keyStats s (currentKeyIndex s) of
        None \<Rightarrow> (True, s)
      | Some stats \<Rightarrow>
          let (t, s1) = Date_now s;
              timeSinceReset = t - resetTime stats
          in if timeSinceReset > 60000 then (True, resetWindow stats s1)
             else (callCount stats < 14, s1))"




definition waitForRateLimit :: "Miner \<Rightarrow> Miner" where
  "waitForRateLimit s =
     (case keyStats s (currentKeyIndex s) of
        None \<Rightarrow> s
      | Some stats \<Rightarrow>
          let minDelayMs = 4000;
              (t, s1) = Date_now s;
              timeSinceLastCall = t - lastCallTime stats
          in if timeSinceLastCall < minDelayMs then sleep (minDelayMs - timeSinceLastCall) s1
             else s1)"







fun callsSinceReset :: "nat \<Rightarrow> Event list \<Rightarrow> nat" where
  "callsSinceReset key [] = 0"
| "callsSinceReset key (Call k t # es) =
     (if k = key then Suc (callsSinceReset key es) else callsSinceReset key es)"
| "callsSinceReset key (Reset k t # es) =
     (if k = key then 0 else callsSinceReset key es)"

subsection \<open>Invariants of the limiter\<close>









section \<open>Date normalizer (utils/normalizer.ts)\<close>

text \<open>
  A \<open>Date\<close> object holds a time value, milliseconds since 1970-01-01T00:00Z, or
  \<open>NaN\<close>, and is then an Invalid Date.
\<close>

datatype JSDate = InvalidDate | DateAt int

text \<open>
  The day number of a calendar date, after \<open>DayFromYear\<close> and \<open>MakeDay\<close> of
  ECMAScript, for a month in 1-12; a day beyond the end of its month runs over into the
  next month.
\<close>

definition DayFromYear :: "int \<Rightarrow> int" where
  "DayFromYear y =
     365 * (y - 1970) + (y - 1969) div 4 - (y - 1901) div 100 + (y - 1601) div 400"

definition InLeapYear :: "int \<Rightarrow> bool" where
  "InLeapYear y = (y mod 4 = 0 \<and> (y mod 100 \<noteq> 0 \<or> y mod 400 = 0))"

definition daysBeforeMonth :: "int \<Rightarrow> nat \<Rightarrow> int" where
  "daysBeforeMonth y m =
     int ([0, 31, 59, 90, 120, 151, 181, 212, 243, 273, 304, 334] ! (m - 1))
       + (if InLeapYear y \<and> m > 2 then 1 else 0)"

definition MakeDay :: "int \<Rightarrow> nat \<Rightarrow> nat \<Rightarrow> int" where
  "MakeDay y m d = DayFromYear y + daysBeforeMonth y m + int d - 1"

definition msPerDay :: int where
  "msPerDay = 86400000"

text \<open>The classes \<open>\d\<close> and \<open>\w\<close> of a regular expression; \<open>\s\<close> is \<open>isWhiteSpace\<close>.\<close>

definition isDigit :: "nat \<Rightarrow> bool" where
  "isDigit c = (48 \<le> c \<and> c \<le> 57)"

definition isWordChar :: "nat \<Rightarrow> bool" where
  "isWordChar c = (isDigit c \<or> (65 \<le> c \<and> c \<le> 90) \<or> (97 \<le> c \<and> c \<le> 122) \<or> c = 95)"

definition digitsAt :: "nat \<Rightarrow> jsstring \<Rightarrow> bool" where
  "digitsAt k r = (k \<le> length r \<and> list_all isDigit (take k r))"

definition dotAt :: "jsstring \<Rightarrow> bool" where
  "dotAt r = (case r of [] \<Rightarrow> False | c # _ \<Rightarrow> c = 46)"

text \<open>
  \<open>parseInt\<close> on a run of digits, \<open>String(n)\<close> on a natural number, and
  \<open>s.padStart(2, '0')\<close>.
\<close>

definition parseInt :: "jsstring \<Rightarrow> nat" where
  "parseInt ds = fold (\<lambda>c n. 10 * n + (c - 48)) ds 0"

fun String_of :: "nat \<Rightarrow> jsstring" where
  "String_of n = (if n < 10 then [48 + n] else String_of (n div 10) @ [48 + n mod 10])"

declare String_of.simps [simp del]

definition padStart2 :: "jsstring \<Rightarrow> jsstring" where
  "padStart2 s = replicate (2 - length s) 48 @ s"

text \<open>
  Matching follows the backtracking of the regular-expression engine: \<open>firstMatch\<close>
  takes the first of an ordered list of alternatives that leads to a match (a greedy
  quantifier tries its longest run first), and \<open>search\<close> takes the leftmost position
  of the text at which the pattern matches.
\<close>

fun firstMatch :: "('a \<Rightarrow> 'b option) \<Rightarrow> 'a list \<Rightarrow> 'b option" where
  "firstMatch f [] = None"
| "firstMatch f (x # xs) = (case f x of Some r \<Rightarrow> Some r | None \<Rightarrow> firstMatch f xs)"

fun search :: "(jsstring \<Rightarrow> 'a option) \<Rightarrow> jsstring \<Rightarrow> 'a option" where
  "search m [] = m []"
| "search m (c # cs) = (case m (c # cs) of Some r \<Rightarrow> Some r | None \<Rightarrow> search m cs)"

definition downTo :: "nat \<Rightarrow> nat \<Rightarrow> nat list" where
  "downTo hi lo = rev [lo ..< Suc hi]"

text \<open>
  \<open>/(\d{1,2})\.(\d{1,2})\.(\d{4})/\<close> and \<open>/(\d{1,2})\.\s*(\w+)\s*(\d{2,4})/\<close> at the start
  of \<open>r\<close>; the result is the three groups.
\<close>

definition ddmmyyyy :: "jsstring \<Rightarrow> (jsstring \<times> jsstring \<times> jsstring) option" where
  "ddmmyyyy r =
     firstMatch (\<lambda>dl.
       if digitsAt dl r \<and> dotAt (drop dl r) then
         let r2 = drop (dl + 1) r in
         firstMatch (\<lambda>ml.
           if digitsAt ml r2 \<and> dotAt (drop ml r2) \<and> digitsAt 4 (drop (ml + 1) r2)
           then Some (take dl r, take ml r2, take 4 (drop (ml + 1) r2))
           else None) [2, 1]
       else None) [2, 1]"

definition dayMonthYear :: "jsstring \<Rightarrow> (jsstring \<times> jsstring \<times> jsstring) option" where
  "dayMonthYear r =
     firstMatch (\<lambda>dl.
       if digitsAt dl r \<and> dotAt (drop dl r) then
         let r1 = drop (dl + 1) r in
         firstMatch (\<lambda>s1.
           let r2 = drop s1 r1 in
           firstMatch (\<lambda>wl.
             let r3 = drop wl r2 in
             firstMatch (\<lambda>s2.
               let r4 = drop s2 r3 in
               firstMatch (\<lambda>yl.
                 if digitsAt yl r4 then Some (take dl r, take wl r2, take yl r4) else None)
                 [4, 3, 2])
               (downTo (length (takeWhile isWhiteSpace r3)) 0))
             (downTo (length (takeWhile isWordChar r2)) 1))
           (downTo (length (takeWhile isWhiteSpace r1)) 0)
       else None) [2, 1]"

text \<open>
  \<open>monthNames[month]\<close> reads an object literal, so besides the month names the two
  properties that every object inherits and that consist of lower-case word characters
  are found: \<open>constructor\<close> and \<open>__proto__\<close>. They are truthy, and \<open>String\<close> turns
  them into the texts given here.
\<close>

datatype MonthEntry = MonthNum nat | Inherited jsstring

definition kw_maerz :: jsstring where
  "kw_maerz = js ''m'' @ [228] @ js ''rz''"

definition kw_maer :: jsstring where
  "kw_maer = js ''m'' @ [228] @ js ''r''"

definition monthNames :: "jsstring \<Rightarrow> MonthEntry option" where
  "monthNames = map_of
     [(js ''januar'', MonthNum 1), (js ''january'', MonthNum 1), (js ''jan'', MonthNum 1),
      (js ''februar'', MonthNum 2), (js ''february'', MonthNum 2), (js ''feb'', MonthNum 2),
      (kw_maerz, MonthNum 3), (js ''march'', MonthNum 3), (kw_maer, MonthNum 3),
      (js ''april'', MonthNum 4), (js ''apr'', MonthNum 4),
      (js ''mai'', MonthNum 5), (js ''may'', MonthNum 5),
      (js ''juni'', MonthNum 6), (js ''june'', MonthNum 6), (js ''jun'', MonthNum 6),
      (js ''juli'', MonthNum 7), (js ''july'', MonthNum 7), (js ''jul'', MonthNum 7),
      (js ''august'', MonthNum 8), (js ''aug'', MonthNum 8),
      (js ''september'', MonthNum 9), (js ''sep'', MonthNum 9),
      (js ''oktober'', MonthNum 10), (js ''october'', MonthNum 10), (js ''okt'', MonthNum 10),
      (js ''november'', MonthNum 11), (js ''nov'', MonthNum 11),
      (js ''dezember'', MonthNum 12), (js ''december'', MonthNum 12), (js ''dez'', MonthNum 12),
      (js ''constructor'', Inherited (js ''function Object() { [native code] }'')),
      (js ''__proto__'', Inherited (js ''[object Object]''))]"

text \<open>
  \<open>new Date(s)\<close>. A string of the form \<open>YYYY-MM-DD\<close> with a month in 01-12 and a day
  in 01-31 is a date of the ECMAScript date-time format: midnight UTC of that day. With
  a month or day outside these ranges the string is not of that format, and the result
  is an Invalid Date, unless the year is in 0001-0031: there the engine's second parser
  may take the first number for a month or a day, and that case, like the parsing of
  any other string, is left to the implementation and is the parameter \<open>parseOther\<close>.
\<close>

definition isoDateOnly :: "jsstring \<Rightarrow> JSDate option" where
  "isoDateOnly s =
     (if length s = 10 \<and> digitsAt 4 s \<and> s ! 4 = 45 \<and> digitsAt 2 (drop 5 s) \<and> s ! 7 = 45
         \<and> digitsAt 2 (drop 8 s)
      then
        let y = parseInt (take 4 s); m = parseInt (take 2 (drop 5 s));
            d = parseInt (take 2 (drop 8 s))
        in if 1 \<le> m \<and> m \<le> 12 \<and> 1 \<le> d \<and> d \<le> 31
           then Some (DateAt (msPerDay * MakeDay (int y) m d))
           else if 1 \<le> y \<and> y \<le> 31 then None
           else Some InvalidDate
      else None)"

definition newDate :: "(jsstring \<Rightarrow> JSDate) \<Rightarrow> jsstring \<Rightarrow> JSDate" where
  "newDate parseOther s = (case isoDateOnly s of Some d \<Rightarrow> d | None \<Rightarrow> parseOther s)"

text \<open>
  \<open>normalizeDate\<close>; \<open>None\<close> is \<open>null\<close>. No operation of its \<open>try\<close> block throws on a
  string, so the \<open>catch\<close> has no branch here.
\<close>

definition normalizeDate :: "(jsstring \<Rightarrow> JSDate) \<Rightarrow> jsstring \<Rightarrow> JSDate option" where
  "normalizeDate parseOther dateStr =
    (if dateStr = [] then None
     else
       let cleaned = toLowerCase (trim dateStr) in
       case search ddmmyyyy cleaned of
         Some (day, month, year) \<Rightarrow>
           Some (newDate parseOther (year @ js ''-'' @ padStart2 month @ js ''-'' @ padStart2 day))
       | None \<Rightarrow>
           (case (case search dayMonthYear cleaned of
                    None \<Rightarrow> None
                  | Some (day, month, year) \<Rightarrow>
                      (case monthNames month of
                         None \<Rightarrow> None
                       | Some monthNum \<Rightarrow>
                           let fullYear = (if parseInt year < 100 then 2000 + parseInt year
                                           else parseInt year);
                               monthText = (case monthNum of
                                              MonthNum k \<Rightarrow> padStart2 (String_of k)
                                            | Inherited text \<Rightarrow> text)
                           in Some (newDate parseOther
                                (String_of fullYear @ js ''-'' @ monthText @ js ''-''
                                   @ padStart2 day)))) of
              Some date \<Rightarrow> Some date
            | None \<Rightarrow>
                (case newDate parseOther cleaned of
                   InvalidDate \<Rightarrow> None
                 | DateAt t \<Rightarrow> Some (DateAt t))))"

section \<open>Properties of the salary resolver\<close>

text \<open>
  C1 (salary never fabricated): when the scraped first-year argument is absent and the
  tariff type is absent or \<open>NONE\<close>, both resolvers return \<open>source = none\<close> with no
  first-year salary, no third-year salary and no average, whatever the other arguments
  and whatever the company-website fetch would return.
\<close>

theorem salary_never_fabricated:
  assumes "scrapedFirstYear = None"
    and "tariffType = None \<or> tariffType = Some TariffType.NONE"
  shows "source (fst (resolveFirstYearSalary ops fetch scrapedFirstYear scrapedThirdYear
                     tariffType companyName originalLink)) = none
       \<and> firstYearSalary (fst (resolveFirstYearSalary ops fetch scrapedFirstYear scrapedThirdYear
                     tariffType companyName originalLink)) = None
       \<and> thirdYearSalary (fst (resolveFirstYearSalary ops fetch scrapedFirstYear scrapedThirdYear
                     tariffType companyName originalLink)) = None
       \<and> average (fst (resolveFirstYearSalary ops fetch scrapedFirstYear scrapedThirdYear
                     tariffType companyName originalLink)) = None
       \<and> source (resolveFirstYearSalaryFast ops scrapedFirstYear scrapedThirdYear tariffType)
           = none
       \<and> firstYearSalary (resolveFirstYearSalaryFast ops scrapedFirstYear scrapedThirdYear
                     tariffType) = None
       \<and> thirdYearSalary (resolveFirstYearSalaryFast ops scrapedFirstYear scrapedThirdYear
                     tariffType) = None
       \<and> average (resolveFirstYearSalaryFast ops scrapedFirstYear scrapedThirdYear tariffType)
           = None"
  using assms by (auto simp: resolveFirstYearSalary_def resolveFirstYearSalaryFast_def)

theorem salary_never_fabricated_witness:
  "source (fst (resolveFirstYearSalary exactOps
            (\<lambda>cn ol. Returns (Some \<lparr>cb_firstYearSalary = Some (Num 1200)\<rparr>))
            None (Some (Num 1300)) (Some TariffType.NONE) (Some (js ''Acme''))
            (Some (js ''http://a'')))) = none
   \<and> average (resolveFirstYearSalaryFast exactOps None (Some (Num 1300)) None) = None"
  using salary_never_fabricated
          [of None "Some TariffType.NONE" exactOps
              "\<lambda>cn ol. Returns (Some \<lparr>cb_firstYearSalary = Some (Num 1200)\<rparr>)"
              "Some (Num 1300)" "Some (js ''Acme'')" "Some (js ''http://a'')"]
        salary_never_fabricated
          [of None None exactOps "\<lambda>cn ol. Throws" "Some (Num 1300)" None None]
  by simp

text \<open>
  C2 as stated fails: a scraped first-year value of \<open>0\<close> is given, yet \<open>if (scrapedFirstYear)\<close>
  takes it for absent, and the result is not \<open>scraped\<close> with that value; the tariff
  standard of 1150 is returned instead. The same happens with \<open>NaN\<close>.
\<close>

theorem scraped_zero_not_used:
  "\<not> (source (resolveFirstYearSalaryFast exactOps (Some (Num 0)) None (Some IG_METALL)) = scraped
       \<and> firstYearSalary (resolveFirstYearSalaryFast exactOps (Some (Num 0)) None
            (Some IG_METALL)) = Some (Num 0))
   \<and> \<not> (source (resolveFirstYearSalaryFast exactOps (Some NaN) None (Some IG_METALL)) = scraped
       \<and> firstYearSalary (resolveFirstYearSalaryFast exactOps (Some NaN) None
            (Some IG_METALL)) = Some NaN)
   \<and> firstYearSalary (resolveFirstYearSalaryFast exactOps (Some (Num 0)) None (Some IG_METALL))
       = Some (Num 1150)
   \<and> firstYearSalary (resolveFirstYearSalaryFast exactOps (Some NaN) None (Some IG_METALL))
       = Some (Num 1150)"
  by (simp add: resolveFirstYearSalaryFast_def)

text \<open>
  C2 (priority ordering), amended: for every truthy scraped first-year value, that is
  every number other than \<open>0\<close> and \<open>NaN\<close>, both resolvers return \<open>source = scraped\<close>
  and exactly that value as first-year salary, for all tariff types, company names and
  links and whatever the arithmetic; the result does not depend on the tariff type (so
  the tariff table plays no part), and the full resolver makes no fetch.
\<close>

theorem scraped_wins:
  assumes "v \<noteq> Num 0" and "v \<noteq> NaN"
  shows "source (resolveFirstYearSalaryFast ops (Some v) scrapedThirdYear tariffType) = scraped
       \<and> firstYearSalary (resolveFirstYearSalaryFast ops (Some v) scrapedThirdYear tariffType)
           = Some v
       \<and> source (fst (resolveFirstYearSalary ops fetch (Some v) scrapedThirdYear tariffType
                        companyName originalLink)) = scraped
       \<and> firstYearSalary (fst (resolveFirstYearSalary ops fetch (Some v) scrapedThirdYear
                        tariffType companyName originalLink)) = Some v
       \<and> snd (resolveFirstYearSalary ops fetch (Some v) scrapedThirdYear tariffType
                        companyName originalLink) = []
       \<and> fst (resolveFirstYearSalary ops fetch (Some v) scrapedThirdYear tariffType
                        companyName originalLink)
           = resolveFirstYearSalaryFast ops (Some v) scrapedThirdYear None
       \<and> resolveFirstYearSalaryFast ops (Some v) scrapedThirdYear tariffType
           = resolveFirstYearSalaryFast ops (Some v) scrapedThirdYear None"
  using assms by (simp add: resolveFirstYearSalary_def resolveFirstYearSalaryFast_def)

theorem scraped_wins_witness:
  "Num 980 \<noteq> Num 0 \<and> Num 980 \<noteq> NaN
   \<and> source (fst (resolveFirstYearSalary exactOps
            (\<lambda>cn ol. Returns (Some \<lparr>cb_firstYearSalary = Some (Num 1200)\<rparr>))
            (Some (Num 980)) None (Some IG_METALL) (Some (js ''Acme''))
            (Some (js ''http://a'')))) = scraped
   \<and> firstYearSalary (resolveFirstYearSalaryFast exactOps (Some (Num 980)) None
        (Some IG_METALL)) = Some (Num 980)"
proof -
  have h: "Num 980 \<noteq> Num 0" and h': "Num 980 \<noteq> NaN"
    by simp_all
  show ?thesis
    using h h' scraped_wins [OF h h', of exactOps None "Some IG_METALL"
            "\<lambda>cn ol. Returns (Some \<lparr>cb_firstYearSalary = Some (Num 1200)\<rparr>)"
            "Some (js ''Acme'')" "Some (js ''http://a'')"]
    by blast
qed

text \<open>
  C3 (the fast variant refines the full resolver): whenever the fetch that step 3 would
  make throws, returns \<open>null\<close> or returns data without a first-year salary, the full
  resolver's result equals the fast resolver's result on the same first three arguments.
\<close>

theorem fast_equals_full:
  assumes "\<And>cn ol. truthyStr companyName = Some cn \<Longrightarrow> truthyStr originalLink = Some ol
             \<Longrightarrow> fetch cn ol = Throws \<or> fetch cn ol = Returns None
                 \<or> (\<exists>d. fetch cn ol = Returns (Some d) \<and> cb_firstYearSalary d = None)"
  shows "fst (resolveFirstYearSalary ops fetch scrapedFirstYear scrapedThirdYear tariffType
                companyName originalLink)
         = resolveFirstYearSalaryFast ops scrapedFirstYear scrapedThirdYear tariffType"
proof (cases "truthyStr companyName")
  case None
  then show ?thesis
    by (simp add: resolveFirstYearSalary_def resolveFirstYearSalaryFast_def
             split: option.splits)
next
  case cn: (Some cn)
  show ?thesis
  proof (cases "truthyStr originalLink")
    case None
    then show ?thesis using cn
      by (simp add: resolveFirstYearSalary_def resolveFirstYearSalaryFast_def
               split: option.splits)
  next
    case (Some ol)
    from assms [OF cn Some] have "foundSalary (fetch cn ol) = None"
      by auto
    then show ?thesis using cn Some
      by (simp add: resolveFirstYearSalary_def resolveFirstYearSalaryFast_def
               split: option.splits)
  qed
qed

theorem fast_equals_full_witness:
  "fst (resolveFirstYearSalary exactOps (\<lambda>cn ol. Returns (Some \<lparr>cb_firstYearSalary = None\<rparr>))
          None (Some (Num 1300)) (Some IG_METALL) (Some (js ''Acme'')) (Some (js ''http://a'')))
   = resolveFirstYearSalaryFast exactOps None (Some (Num 1300)) (Some IG_METALL)
   \<and> source (resolveFirstYearSalaryFast exactOps None (Some (Num 1300)) (Some IG_METALL))
       = tariff_standard"
proof -
  have "fst (resolveFirstYearSalary exactOps
          (\<lambda>cn ol. Returns (Some \<lparr>cb_firstYearSalary = None\<rparr>))
          None (Some (Num 1300)) (Some IG_METALL) (Some (js ''Acme'')) (Some (js ''http://a'')))
   = resolveFirstYearSalaryFast exactOps None (Some (Num 1300)) (Some IG_METALL)"
    by (rule fast_equals_full) simp
  moreover
  have "source (resolveFirstYearSalaryFast exactOps None (Some (Num 1300)) (Some IG_METALL))
        = tariff_standard"
    by (simp add: resolveFirstYearSalaryFast_def)
  ultimately show ?thesis by simp
qed

text \<open>
  C5 as stated fails: with a resolved first-year value of 1000 and a scraped third-year
  value of \<open>0\<close>, both are present, yet the average is 1000 and not
  \<open>round((1000 + 0) / 2)\<close>, which is 500.
\<close>

theorem average_zero_third_year:
  "average (resolveFirstYearSalaryFast exactOps (Some (Num 1000)) (Some (Num 0)) None)
     = Some (Num 1000)
   \<and> Math_round exactOps (num_halve exactOps (num_add exactOps (Num 1000) (Num 0))) = Num 500
   \<and> \<not> (average (resolveFirstYearSalaryFast exactOps (Some (Num 1000)) (Some (Num 0)) None)
        = Some (Math_round exactOps (num_halve exactOps (num_add exactOps (Num 1000) (Num 0)))))"
proof -
  have "exact_round (Num 500) = Num 500"
    by code_simp
  then show ?thesis
    by (simp add: resolveFirstYearSalaryFast_def exactOps_def)
qed

lemma third_full:
  "thirdYearSalary (fst (resolveFirstYearSalary ops fetch s1 s3 t cn ol))
   = (if firstYearSalary (fst (resolveFirstYearSalary ops fetch s1 s3 t cn ol)) = None then None
      else truthyNum s3)"
  by (simp add: resolveFirstYearSalary_def Let_def split: option.splits)

lemma third_fast:
  "thirdYearSalary (resolveFirstYearSalaryFast ops s1 s3 t)
   = (if firstYearSalary (resolveFirstYearSalaryFast ops s1 s3 t) = None then None
      else truthyNum s3)"
  by (simp add: resolveFirstYearSalaryFast_def split: option.splits)

lemma average_full:
  "average (fst (resolveFirstYearSalary ops fetch s1 s3 t cn ol))
   = map_option (\<lambda>f. averageOf ops f (truthyNum s3))
       (firstYearSalary (fst (resolveFirstYearSalary ops fetch s1 s3 t cn ol)))"
  by (simp add: resolveFirstYearSalary_def Let_def split: option.splits)

lemma average_fast:
  "average (resolveFirstYearSalaryFast ops s1 s3 t)
   = map_option (\<lambda>f. averageOf ops f (truthyNum s3))
       (firstYearSalary (resolveFirstYearSalaryFast ops s1 s3 t))"
  by (simp add: resolveFirstYearSalaryFast_def split: option.splits)

lemma average_cases:
  assumes "average r = map_option (\<lambda>f. averageOf ops f (truthyNum third)) (firstYearSalary r)"
    and "thirdYearSalary r = (if firstYearSalary r = None then None else truthyNum third)"
  shows "(firstYearSalary r = None \<longrightarrow> average r = None)
       \<and> (\<forall>f t. firstYearSalary r = Some f \<and> thirdYearSalary r = Some t
              \<longrightarrow> average r = Some (Math_round ops (num_halve ops (num_add ops f t))))
       \<and> (\<forall>f. firstYearSalary r = Some f \<and> thirdYearSalary r = None \<longrightarrow> average r = Some f)
       \<and> (\<forall>t. firstYearSalary r \<noteq> None \<and> third = Some t \<and> t \<noteq> Num 0 \<and> t \<noteq> NaN
              \<longrightarrow> thirdYearSalary r = Some t)
       \<and> (third = None \<or> third = Some (Num 0) \<or> third = Some NaN
              \<longrightarrow> thirdYearSalary r = None)"
  using assms by (cases "firstYearSalary r"; cases third) auto

text \<open>
  C5 (average computation), amended: in every source branch of both resolvers, and for
  all arguments and every arithmetic, the result's average is
  \<open>Math.round((first + third) / 2)\<close> of the result's first-year and third-year salary
  when the result has both, is the result's first-year salary when it has no third-year
  salary, and is absent when no first-year value is resolved. A result with a first-year
  salary has the scraped third-year value as its third-year salary exactly when that
  value is truthy; an absent third-year argument, \<open>0\<close> and \<open>NaN\<close> leave it without one.
\<close>

theorem average_computation:
  "(let r = fst (resolveFirstYearSalary ops fetch scrapedFirstYear scrapedThirdYear tariffType
                   companyName originalLink) in
         (firstYearSalary r = None \<longrightarrow> average r = None)
       \<and> (\<forall>f t. firstYearSalary r = Some f \<and> thirdYearSalary r = Some t
              \<longrightarrow> average r = Some (Math_round ops (num_halve ops (num_add ops f t))))
       \<and> (\<forall>f. firstYearSalary r = Some f \<and> thirdYearSalary r = None \<longrightarrow> average r = Some f)
       \<and> (\<forall>t. firstYearSalary r \<noteq> None \<and> scrapedThirdYear = Some t \<and> t \<noteq> Num 0 \<and> t \<noteq> NaN
              \<longrightarrow> thirdYearSalary r = Some t)
       \<and> (scrapedThirdYear = None \<or> scrapedThirdYear = Some (Num 0)
            \<or> scrapedThirdYear = Some NaN \<longrightarrow> thirdYearSalary r = None))
      \<and> (let r = resolveFirstYearSalaryFast ops scrapedFirstYear scrapedThirdYear tariffType in
         (firstYearSalary r = None \<longrightarrow> average r = None)
       \<and> (\<forall>f t. firstYearSalary r = Some f \<and> thirdYearSalary r = Some t
              \<longrightarrow> average r = Some (Math_round ops (num_halve ops (num_add ops f t))))
       \<and> (\<forall>f. firstYearSalary r = Some f \<and> thirdYearSalary r = None \<longrightarrow> average r = Some f)
       \<and> (\<forall>t. firstYearSalary r \<noteq> None \<and> scrapedThirdYear = Some t \<and> t \<noteq> Num 0 \<and> t \<noteq> NaN
              \<longrightarrow> thirdYearSalary r = Some t)
       \<and> (scrapedThirdYear = None \<or> scrapedThirdYear = Some (Num 0)
            \<or> scrapedThirdYear = Some NaN \<longrightarrow> thirdYearSalary r = None))"
  unfolding Let_def
  by (rule conjI; rule average_cases;
      (rule average_full | rule average_fast | rule third_full | rule third_fast))

theorem average_computation_witness:
  "average (resolveFirstYearSalaryFast exactOps None (Some (Num 1301)) (Some IG_METALL))
     = Some (Num 1226)
   \<and> average (fst (resolveFirstYearSalary exactOps
        (\<lambda>cn ol. Returns (Some \<lparr>cb_firstYearSalary = Some (Num 1200)\<rparr>))
        None (Some NaN) (Some VERDI) (Some (js ''Acme'')) (Some (js ''http://a''))))
     = Some (Num 1200)"
proof -
  have m: "Math_round exactOps (num_halve exactOps (num_add exactOps (Num 1150) (Num 1301)))
           = Num 1226"
    by (simp add: exactOps_def)
  have f1: "firstYearSalary (resolveFirstYearSalaryFast exactOps None (Some (Num 1301))
              (Some IG_METALL)) = Some (Num 1150)"
    by (simp add: resolveFirstYearSalaryFast_def)
  have f2: "firstYearSalary (fst (resolveFirstYearSalary exactOps
        (\<lambda>cn ol. Returns (Some \<lparr>cb_firstYearSalary = Some (Num 1200)\<rparr>))
        None (Some NaN) (Some VERDI) (Some (js ''Acme'')) (Some (js ''http://a''))))
        = Some (Num 1200)"
    by (simp add: resolveFirstYearSalary_def js_def)
  have n: "Num 1301 \<noteq> Num 0" "Num 1301 \<noteq> NaN"
    by simp_all
  show ?thesis
    using average_computation
            [of exactOps "\<lambda>cn ol. Returns (Some \<lparr>cb_firstYearSalary = Some (Num 1200)\<rparr>)"
                None "Some NaN" "Some VERDI" "Some (js ''Acme'')" "Some (js ''http://a'')"]
          average_computation
            [of exactOps "\<lambda>cn ol. Throws" None "Some (Num 1301)" "Some IG_METALL" None None]
          m f1 f2 n
    by (simp add: Let_def)
qed

text \<open>
  C10 (shape of every result): in the result of either resolver the first-year salary is
  present exactly when the source is not \<open>none\<close>, the average is present exactly when the
  first-year salary is, and a third-year salary is present only when a scraped third-year
  value was supplied (and is then that value).
\<close>

theorem result_shape:
  "(let r = fst (resolveFirstYearSalary ops fetch scrapedFirstYear scrapedThirdYear tariffType
                   companyName originalLink) in
      (firstYearSalary r \<noteq> None \<longleftrightarrow> source r \<noteq> none)
    \<and> (average r \<noteq> None \<longleftrightarrow> firstYearSalary r \<noteq> None)
    \<and> (thirdYearSalary r \<noteq> None
          \<longrightarrow> scrapedThirdYear \<noteq> None \<and> thirdYearSalary r = scrapedThirdYear))
 \<and> (let r = resolveFirstYearSalaryFast ops scrapedFirstYear scrapedThirdYear tariffType in
      (firstYearSalary r \<noteq> None \<longleftrightarrow> source r \<noteq> none)
    \<and> (average r \<noteq> None \<longleftrightarrow> firstYearSalary r \<noteq> None)
    \<and> (thirdYearSalary r \<noteq> None
          \<longrightarrow> scrapedThirdYear \<noteq> None \<and> thirdYearSalary r = scrapedThirdYear))"
  unfolding Let_def
  apply (rule conjI)
   apply (cases scrapedThirdYear;
      auto simp: resolveFirstYearSalary_def Let_def
           split: option.splits if_splits list.splits prod.splits)
  apply (cases scrapedThirdYear;
      auto simp: resolveFirstYearSalaryFast_def Let_def
           split: option.splits if_splits list.splits prod.splits)
  done

theorem result_shape_witness:
  "thirdYearSalary (resolveFirstYearSalaryFast exactOps (Some (Num 1000)) (Some (Num 1200)) None)
     = Some (Num 1200)
   \<and> source (resolveFirstYearSalaryFast exactOps (Some (Num 1000)) (Some (Num 1200)) None)
     = scraped"
  using result_shape [of exactOps "\<lambda>cn ol. Throws" "Some (Num 1000)" "Some (Num 1200)"
                         None None None]
  by (simp add: Let_def resolveFirstYearSalaryFast_def)

section \<open>Properties of the field mapper\<close>

lemmas str_eval = js_def toLowerCase_def lowerUnit_def kw_tvoed_def kw_oeffentlich_def kw_laender_def

lemma lowersAsciiD:
  "lowersAscii lower \<Longrightarrow> list_all (\<lambda>c. c < 128) s \<Longrightarrow> lower s = map asciiLower s"
  by (simp add: lowersAscii_def)

lemma toLowerCase_lowersAscii: "lowersAscii toLowerCase"
  unfolding lowersAscii_def toLowerCase_def
  by (auto simp: list_all_iff lowerUnit_def asciiLower_def)

lemma lowered_literals:
  assumes "lowersAscii lower"
  shows "lower (js ''null'') = js ''null''"
    and "lower (js ''not mentioned'') = js ''not mentioned''"
    and "lower (js ''none'') = js ''none''"
    and "lower (js ''None'') = js ''none''"
  by (simp_all add: lowersAsciiD [OF assms] js_def asciiLower_def)

lemma german_sentinels:
  "x \<in> {None, Some [], Some (js ''null''), Some (js ''not mentioned''), Some (js ''none''),
        Some (js ''None'')}
   \<Longrightarrow> mapGermanLevel lower x = GermanLevel.NONE"
  by (auto simp: mapGermanLevel_def)

lemma tariff_sentinels:
  "x \<in> {None, Some [], Some (js ''null''), Some (js ''not mentioned''), Some (js ''none''),
        Some (js ''None'')}
   \<Longrightarrow> mapTariffType lower x = TariffType.NONE"
  by (auto simp: mapTariffType_def)

lemma education_absent: "x \<in> {None, Some []} \<Longrightarrow> mapEducationLevel lower x = REALSCHULE"
  by (auto simp: mapEducationLevel_def)

lemma education_null:
  assumes "lowersAscii lower"
  shows "mapEducationLevel lower (Some (js ''null'')) = REALSCHULE"
proof -
  have "mapEducationLevel lower (Some (js ''null''))
        = mapEducationLevel toLowerCase (Some (js ''null''))"
    by (simp add: mapEducationLevel_def lowered_literals [OF assms]
          lowered_literals [OF toLowerCase_lowersAscii])
  also have "\<dots> = REALSCHULE"
    by (simp add: mapEducationLevel_def str_eval)
  finally show ?thesis .
qed

lemma education_not_mentioned:
  assumes "lowersAscii lower"
  shows "mapEducationLevel lower (Some (js ''not mentioned'')) = REALSCHULE"
proof -
  have "mapEducationLevel lower (Some (js ''not mentioned''))
        = mapEducationLevel toLowerCase (Some (js ''not mentioned''))"
    by (simp add: mapEducationLevel_def lowered_literals [OF assms]
          lowered_literals [OF toLowerCase_lowersAscii])
  also have "\<dots> = REALSCHULE"
    by (simp add: mapEducationLevel_def str_eval)
  finally show ?thesis .
qed

lemma education_none:
  assumes "lowersAscii lower"
  shows "mapEducationLevel lower (Some (js ''none'')) = EducationLevel.NONE"
    and "mapEducationLevel lower (Some (js ''None'')) = EducationLevel.NONE"
proof -
  have "mapEducationLevel lower (Some (js ''none''))
        = mapEducationLevel toLowerCase (Some (js ''none''))"
    by (simp add: mapEducationLevel_def lowered_literals [OF assms]
          lowered_literals [OF toLowerCase_lowersAscii])
  also have "\<dots> = EducationLevel.NONE"
    by (simp add: mapEducationLevel_def str_eval)
  finally show "mapEducationLevel lower (Some (js ''none'')) = EducationLevel.NONE" .
  have "mapEducationLevel lower (Some (js ''None''))
        = mapEducationLevel toLowerCase (Some (js ''None''))"
    by (simp add: mapEducationLevel_def lowered_literals [OF assms]
          lowered_literals [OF toLowerCase_lowersAscii])
  also have "\<dots> = EducationLevel.NONE"
    by (simp add: mapEducationLevel_def str_eval)
  finally show "mapEducationLevel lower (Some (js ''None'')) = EducationLevel.NONE" .
qed

lemma german_never_native: "mapGermanLevel lower x \<noteq> NATIVE"
  by (simp add: mapGermanLevel_def Let_def split: option.splits)

lemma german_no_keyword:
  assumes "\<forall>k \<in> set [js ''muttersprache'', js ''native'', js ''fluent'', js ''c2'', js ''c1'',
             js ''verhandlungssicher'', js ''b2'', js ''good'', js ''sehr gut'', js ''gut'',
             js ''b1'', js ''intermediate'', js ''mittelstufe'', js ''a2'', js ''a1''].
           \<not> includes_js (lower i) k"
  shows "mapGermanLevel lower (Some i) = GermanLevel.NONE"
  using assms by (simp add: mapGermanLevel_def Let_def)

lemma education_no_keyword:
  assumes "\<forall>k \<in> set [js ''abitur'', js ''fachabitur'', js ''realschule'', js ''hauptschule'',
             js ''keine'', js ''none'']. \<not> includes_js (lower i) k"
  shows "mapEducationLevel lower (Some i) = REALSCHULE"
  using assms by (simp add: mapEducationLevel_def Let_def)

lemma tariff_no_keyword:
  assumes "\<forall>k \<in> set [js ''ig metall'', js ''metall'', js ''ver.di'', js ''verdi'', js ''ig bce'',
             js ''chemie'', js ''bergbau'', js ''ig bau'', js ''bau'', js ''ngg'', js ''nahrung'',
             kw_tvoed, kw_oeffentlich, js ''tv-l'', kw_laender, js ''it tarif'', js ''it-tarif'',
             js ''einzelhandel'', js ''handel'', js ''bank'', js ''sparkasse'', js ''tarif''].
           \<not> includes_js (lower i) k"
  shows "mapTariffType lower (Some i) = TariffType.NONE"
  using assms by (simp add: mapTariffType_def Let_def)

text \<open>
  C7 as stated fails: the literal \<open>none\<close> is among the inputs the claim lists as
  "not mentioned", and the claim gives \<open>REALSCHULE\<close> as the default of the education
  mapper; but \<open>none\<close> is a keyword of \<open>mapEducationLevel\<close>, which returns
  \<open>EducationLevel.NONE\<close> for it.
\<close>

theorem education_none_not_default:
  "mapEducationLevel toLowerCase (Some (js ''none'')) = EducationLevel.NONE
   \<and> \<not> (mapEducationLevel toLowerCase (Some (js ''none'')) = REALSCHULE)"
  by (simp add: mapEducationLevel_def str_eval)

text \<open>
  C7 (enum closure and defaults), amended: for every input (absent, empty, or any string)
  each of the three mappers returns a member of its enumeration, and \<open>mapGermanLevel\<close>
  never \<open>NATIVE\<close>. An absent or empty input and the literals \<open>null\<close> and
  \<open>not mentioned\<close> give the defaults \<open>GermanLevel.NONE\<close>,
  \<open>EducationLevel.REALSCHULE\<close> and \<open>TariffType.NONE\<close>, and so does every input
  whose lowercased text contains none of the mapper's keywords. The literals \<open>none\<close>
  and \<open>None\<close> give \<open>GermanLevel.NONE\<close> and \<open>TariffType.NONE\<close>, and
  \<open>EducationLevel.NONE\<close> from the education mapper. Of \<open>toLowerCase\<close> only its
  action on ASCII text is used.
\<close>

theorem mapper_total_defaults:
  assumes "lowersAscii lower"
  shows "mapGermanLevel lower x \<in> {GermanLevel.NONE, A1, A2, B1, B2, C1, C2}
   \<and> mapEducationLevel lower x \<in> {EducationLevel.NONE, HAUPTSCHULE, REALSCHULE, ABITUR, FACHABITUR}
   \<and> mapTariffType lower x \<in> {TariffType.NONE, IG_METALL, VERDI, IG_BCE, IG_BAU, NGG, TVOED, TV_L,
        IT_TARIFVERTRAG, EINZELHANDEL, BANKING, OTHER}
   \<and> (x \<in> {None, Some [], Some (js ''null''), Some (js ''not mentioned'')} \<longrightarrow>
        mapGermanLevel lower x = GermanLevel.NONE \<and> mapEducationLevel lower x = REALSCHULE
        \<and> mapTariffType lower x = TariffType.NONE)
   \<and> (x \<in> {Some (js ''none''), Some (js ''None'')} \<longrightarrow>
        mapGermanLevel lower x = GermanLevel.NONE \<and> mapTariffType lower x = TariffType.NONE
        \<and> mapEducationLevel lower x = EducationLevel.NONE)
   \<and> ((\<forall>k \<in> set [js ''muttersprache'', js ''native'', js ''fluent'', js ''c2'', js ''c1'',
             js ''verhandlungssicher'', js ''b2'', js ''good'', js ''sehr gut'', js ''gut'',
             js ''b1'', js ''intermediate'', js ''mittelstufe'', js ''a2'', js ''a1''].
           \<not> includes_js (lower i) k)
        \<longrightarrow> mapGermanLevel lower (Some i) = GermanLevel.NONE)
   \<and> ((\<forall>k \<in> set [js ''abitur'', js ''fachabitur'', js ''realschule'', js ''hauptschule'',
             js ''keine'', js ''none'']. \<not> includes_js (lower i) k)
        \<longrightarrow> mapEducationLevel lower (Some i) = REALSCHULE)
   \<and> ((\<forall>k \<in> set [js ''ig metall'', js ''metall'', js ''ver.di'', js ''verdi'', js ''ig bce'',
             js ''chemie'', js ''bergbau'', js ''ig bau'', js ''bau'', js ''ngg'', js ''nahrung'',
             kw_tvoed, kw_oeffentlich, js ''tv-l'', kw_laender, js ''it tarif'', js ''it-tarif'',
             js ''einzelhandel'', js ''handel'', js ''bank'', js ''sparkasse'', js ''tarif''].
           \<not> includes_js (lower i) k)
        \<longrightarrow> mapTariffType lower (Some i) = TariffType.NONE)"
proof -
  have g: "mapGermanLevel lower x \<in> {GermanLevel.NONE, A1, A2, B1, B2, C1, C2}"
    using german_never_native [of lower x] by (cases "mapGermanLevel lower x") simp_all
  have e: "mapEducationLevel lower x \<in> {EducationLevel.NONE, HAUPTSCHULE, REALSCHULE, ABITUR, FACHABITUR}"
    by (cases "mapEducationLevel lower x") simp_all
  have t: "mapTariffType lower x \<in> {TariffType.NONE, IG_METALL, VERDI, IG_BCE, IG_BAU, NGG, TVOED, TV_L,
        IT_TARIFVERTRAG, EINZELHANDEL, BANKING, OTHER}"
    by (cases "mapTariffType lower x") simp_all
  have s: "x \<in> {None, Some [], Some (js ''null''), Some (js ''not mentioned'')} \<longrightarrow>
        mapGermanLevel lower x = GermanLevel.NONE \<and> mapEducationLevel lower x = REALSCHULE
        \<and> mapTariffType lower x = TariffType.NONE"
    using german_sentinels [of x lower] tariff_sentinels [of x lower]
      education_absent [of x lower] education_null [OF assms] education_not_mentioned [OF assms]
    by blast
  have n: "x \<in> {Some (js ''none''), Some (js ''None'')} \<longrightarrow>
        mapGermanLevel lower x = GermanLevel.NONE \<and> mapTariffType lower x = TariffType.NONE
        \<and> mapEducationLevel lower x = EducationLevel.NONE"
    using german_sentinels [of x lower] tariff_sentinels [of x lower] education_none [OF assms]
    by blast
  show ?thesis
    using g e t s n german_no_keyword [of lower i] education_no_keyword [of lower i]
      tariff_no_keyword [of lower i]
    by blast
qed

theorem mapper_total_defaults_witness:
  "lowersAscii toLowerCase
   \<and> mapGermanLevel toLowerCase (Some (js ''not mentioned'')) = GermanLevel.NONE
   \<and> mapEducationLevel toLowerCase (Some (js ''not mentioned'')) = REALSCHULE
   \<and> mapTariffType toLowerCase (Some (js ''not mentioned'')) = TariffType.NONE
   \<and> mapGermanLevel toLowerCase (Some (js ''Deutsch erforderlich'')) = GermanLevel.NONE
   \<and> mapEducationLevel toLowerCase (Some (js ''Schulabschluss'')) = REALSCHULE
   \<and> mapTariffType toLowerCase (Some (js ''Haustarif'')) = OTHER"
proof -
  have 1: "\<forall>k \<in> set [js ''muttersprache'', js ''native'', js ''fluent'', js ''c2'', js ''c1'',
             js ''verhandlungssicher'', js ''b2'', js ''good'', js ''sehr gut'', js ''gut'',
             js ''b1'', js ''intermediate'', js ''mittelstufe'', js ''a2'', js ''a1''].
           \<not> includes_js (toLowerCase (js ''Deutsch erforderlich'')) k"
    by (simp add: str_eval)
  have 2: "\<forall>k \<in> set [js ''abitur'', js ''fachabitur'', js ''realschule'', js ''hauptschule'',
             js ''keine'', js ''none'']. \<not> includes_js (toLowerCase (js ''Schulabschluss'')) k"
    by (simp add: str_eval)
  have 3: "mapTariffType toLowerCase (Some (js ''Haustarif'')) = OTHER"
    by (simp add: mapTariffType_def str_eval)
  show ?thesis
    using mapper_total_defaults [OF toLowerCase_lowersAscii,
            of "Some (js ''not mentioned'')" "js ''Deutsch erforderlich''"]
      mapper_total_defaults [OF toLowerCase_lowersAscii,
            of "Some (js ''not mentioned'')" "js ''Schulabschluss''"]
      toLowerCase_lowersAscii 1 2 3
    by simp
qed

section \<open>Properties of the tech-stack normalizer\<close>

lemma lowerUnit_idem: "lowerUnit (lowerUnit c) = lowerUnit c"
  by (simp add: lowerUnit_def)

lemma isWhiteSpace_lowerUnit: "isWhiteSpace (lowerUnit c) = isWhiteSpace c"
  unfolding lowerUnit_def isWhiteSpace_def by (simp; arith)

lemma toLowerCase_idem: "toLowerCase (toLowerCase s) = toLowerCase s"
  by (simp add: toLowerCase_def lowerUnit_idem)

lemma toLowerCase_trim: "toLowerCase (trim s) = trim (toLowerCase s)"
proof -
  have c: "isWhiteSpace \<circ> lowerUnit = isWhiteSpace"
    by (rule ext) (simp add: isWhiteSpace_lowerUnit)
  show ?thesis
    by (simp add: toLowerCase_def trim_def rev_map dropWhile_map c)
qed

lemma dropWhile_id_iff: "dropWhile P xs = xs \<longleftrightarrow> xs = [] \<or> \<not> P (hd xs)"
proof (cases xs)
  case Nil
  then show ?thesis by simp
next
  case (Cons a list)
  have "length (dropWhile P list) \<le> length list"
    by (rule length_dropWhile_le)
  then have "dropWhile P list \<noteq> a # list"
    by (metis impossible_Cons)
  with Cons show ?thesis by simp
qed

lemma trim_idem: "trim (trim s) = trim s"
proof -
  define a where "a = dropWhile isWhiteSpace s"
  define b where "b = dropWhile isWhiteSpace (rev a)"
  have a: "a = [] \<or> \<not> isWhiteSpace (hd a)"
    unfolding a_def by (metis hd_dropWhile)
  have b: "b = [] \<or> \<not> isWhiteSpace (hd b)"
    unfolding b_def by (metis hd_dropWhile)
  obtain ws where "rev a = ws @ b"
    unfolding b_def by (metis takeWhile_dropWhile_id)
  then have "a = rev b @ rev ws"
    by (metis rev_append rev_rev_ident)
  with a have "rev b = [] \<or> \<not> isWhiteSpace (hd (rev b))"
    by (cases "rev b") auto
  then have 1: "dropWhile isWhiteSpace (rev b) = rev b"
    by (simp add: dropWhile_id_iff)
  from b have 2: "dropWhile isWhiteSpace b = b"
    by (simp add: dropWhile_id_iff)
  have "trim s = rev b"
    by (simp add: trim_def a_def b_def)
  then show ?thesis
    by (simp add: trim_def [of "rev b"] 1 2)
qed

lemma lowerStable_toLowerCase: "lowerStable toLowerCase"
  by (simp add: lowerStable_def toLowerCase_idem toLowerCase_trim)

lemma fold_add_set:
  "set (fold (\<lambda>x acc. if x \<in> set acc then acc else acc @ [x]) xs acc) = set acc \<union> set xs"
  by (induction xs arbitrary: acc) auto

lemma fold_add_distinct:
  "distinct acc \<Longrightarrow> distinct (fold (\<lambda>x acc. if x \<in> set acc then acc else acc @ [x]) xs acc)"
  by (induction xs arbitrary: acc) auto

lemma fold_add_id:
  "distinct (acc @ xs) \<Longrightarrow> fold (\<lambda>x acc. if x \<in> set acc then acc else acc @ [x]) xs acc = acc @ xs"
  by (induction xs arbitrary: acc) auto

lemma set_Set_from: "set (Set_from xs) = set xs"
  by (simp add: Set_from_def fold_add_set)

lemma distinct_Set_from: "distinct (Set_from xs)"
  by (simp add: Set_from_def fold_add_distinct)

lemma Set_from_distinct: "distinct xs \<Longrightarrow> Set_from xs = xs"
  using fold_add_id [of "[]" xs] by (simp add: Set_from_def)

lemma normalizeTechStack_sorted: "sorted (normalizeTechStack lower x)"
  by (simp add: normalizeTechStack_def)

lemma normalizeTechStack_distinct: "distinct (normalizeTechStack lower x)"
  by (simp add: normalizeTechStack_def distinct_Set_from)

lemma normalizeTechStack_set:
  "set (normalizeTechStack lower x)
   = {t. t \<noteq> [] \<and> t \<in> (\<lambda>tech. trim (lower tech)) ` set x}"
  by (auto simp: normalizeTechStack_def set_Set_from)

lemma normalizeTechStack_fixed:
  assumes "sorted xs" "distinct xs" "\<forall>t \<in> set xs. t \<noteq> [] \<and> trim (lower t) = t"
  shows "normalizeTechStack lower xs = xs"
proof -
  have "map (\<lambda>tech. trim (lower tech)) xs = xs"
    using assms(3) by (simp add: map_idI)
  moreover have "filter (\<lambda>tech. length tech > 0) xs = xs"
    using assms(3) by (simp add: filter_id_conv)
  ultimately show ?thesis
    using assms(1,2) by (simp add: normalizeTechStack_def Set_from_distinct sort_key_id_if_sorted)
qed

text \<open>
  C9 (idempotent tech-stack normalization): for every input list, normalizing a normalized
  list changes nothing, and the output is sorted in the order of the code units, free of
  duplicates, and made of non-empty, lowercased, trimmed strings. Of \<open>toLowerCase\<close>
  two properties are used: lowering a lowered text changes nothing, and lowering goes
  through trimming.
\<close>

theorem normalizeTechStack_idempotent:
  assumes "lowerStable lower"
  shows "normalizeTechStack lower (normalizeTechStack lower x) = normalizeTechStack lower x
   \<and> sorted (normalizeTechStack lower x) \<and> distinct (normalizeTechStack lower x)
   \<and> (\<forall>t \<in> set (normalizeTechStack lower x). t \<noteq> [] \<and> lower t = t \<and> trim t = t)"
proof -
  have idem: "\<And>s. lower (lower s) = lower s" and comm: "\<And>s. lower (trim s) = trim (lower s)"
    using assms by (simp_all add: lowerStable_def)
  have el: "\<forall>t \<in> set (normalizeTechStack lower x). t \<noteq> [] \<and> lower t = t \<and> trim t = t"
    by (auto simp: normalizeTechStack_set comm idem trim_idem)
  then have "\<forall>t \<in> set (normalizeTechStack lower x). t \<noteq> [] \<and> trim (lower t) = t"
    by simp
  then have "normalizeTechStack lower (normalizeTechStack lower x) = normalizeTechStack lower x"
    by (intro normalizeTechStack_fixed normalizeTechStack_sorted normalizeTechStack_distinct)
  with el show ?thesis
    by (simp add: normalizeTechStack_sorted normalizeTechStack_distinct)
qed

theorem normalizeTechStack_idempotent_witness:
  "lowerStable toLowerCase
   \<and> normalizeTechStack toLowerCase [js '' Java '', js ''java'', js '''', js ''C#'', js ''SAP'']
     = [js ''c#'', js ''java'', js ''sap'']
   \<and> normalizeTechStack toLowerCase [js ''c#'', js ''java'', js ''sap'']
     = [js ''c#'', js ''java'', js ''sap'']"
proof -
  have 1: "normalizeTechStack toLowerCase
             [js '' Java '', js ''java'', js '''', js ''C#'', js ''SAP'']
     = [js ''c#'', js ''java'', js ''sap'']"
    by (simp add: normalizeTechStack_def Set_from_def js_def toLowerCase_def lowerUnit_def
          trim_def isWhiteSpace_def)
  show ?thesis
    using normalizeTechStack_idempotent [OF lowerStable_toLowerCase,
            of "[js '' Java '', js ''java'', js '''', js ''C#'', js ''SAP'']"]
      lowerStable_toLowerCase
    unfolding 1 by simp
qed

section \<open>Properties of the mining run\<close>

lemma mark_drops_unlisted:
  "mine \<lparr>maxJobsPerRun = 100, dryRun = False\<rparr> (\<lambda>u. Saved) 7
        (Inr [\<lparr>url = js ''a'', vacancyCount = Some 2\<rparr>])
        [\<lparr>job_id = 1, original_link = Some (js ''a''), is_active = True,
            vacancy_count = Some 1, last_checked_at = None\<rparr>,
         \<lparr>job_id = 2, original_link = Some (js ''b''), is_active = True,
            vacancy_count = None, last_checked_at = None\<rparr>]
   = ([\<lparr>job_id = 1, original_link = Some (js ''a''), is_active = True,
            vacancy_count = Some 2, last_checked_at = Some 7\<rparr>,
       \<lparr>job_id = 2, original_link = Some (js ''b''), is_active = False,
            vacancy_count = None, last_checked_at = Some 7\<rparr>],
      [PHASE1, PHASE2, PHASE3])"
  by (simp add: mine_def markUnlistedJobsAsInactive_def findOne_def findByIdAndUpdate_def js_def)

text \<open>
  C6 (staleness marking requires a listing): when the listing fetch of phase 1 yields zero
  items, the run ends in phase 1, before phases 2 and 3, and the store is left as it was;
  in particular no document's \<open>is_active\<close> changes.
\<close>

theorem empty_listing_marks_nothing:
  "fst (mine config pipeline now (Inr []) db) = db
   \<and> snd (mine config pipeline now (Inr []) db) = [PHASE1]
   \<and> PHASE3 \<notin> set (snd (mine config pipeline now (Inr []) db))
   \<and> map is_active (fst (mine config pipeline now (Inr []) db)) = map is_active db"
  by (simp add: mine_def)

section \<open>Properties of the rate limiter\<close>



lemma Date_now_frame [simp]:
  "currentKeyIndex (snd (Date_now s)) = currentKeyIndex s"
  "keyStats (snd (Date_now s)) = keyStats s"
  "events (snd (Date_now s)) = events s"
  by (simp_all add: Date_now_def split: list.splits)

lemma sleep_frame [simp]:
  "currentKeyIndex (sleep ms s) = currentKeyIndex s"
  "keyStats (sleep ms s) = keyStats s"
  "events (sleep ms s) = events s"
  by (simp_all add: sleep_def)

lemma nextReply_frame [simp]:
  "currentKeyIndex (snd (nextReply s)) = currentKeyIndex s"
  "keyStats (snd (nextReply s)) = keyStats s"
  "events (snd (nextReply s)) = events s"
  by (simp_all add: nextReply_def split: list.splits)





lemma resetWindow_index [simp]: "currentKeyIndex (resetWindow stats s) = currentKeyIndex s"
  by (simp add: resetWindow_def split_beta)

lemma canUseCurrentKey_index [simp]:
  "currentKeyIndex (snd (canUseCurrentKey s)) = currentKeyIndex s"
  by (simp add: canUseCurrentKey_def split_beta Let_def split: option.splits)







lemma waitForRateLimit_frame [simp]:
  "currentKeyIndex (waitForRateLimit s) = currentKeyIndex s"
  "keyStats (waitForRateLimit s) = keyStats s"
  "events (waitForRateLimit s) = events s"
  by (simp_all add: waitForRateLimit_def split_beta Let_def split: option.splits)

lemma callsSinceReset_Call_le:
  "callsSinceReset k (Call key t # es) \<le> Suc (callsSinceReset k es)"
  by simp


































section \<open>Properties of the date normalizer\<close>

lemmas clean_eval = js_def toLowerCase_def lowerUnit_def trim_def isWhiteSpace_def

lemmas match_eval = js_def ddmmyyyy_def dayMonthYear_def digitsAt_def dotAt_def isDigit_def
  isWordChar_def isWhiteSpace_def downTo_def

lemmas iso_eval = js_def newDate_def isoDateOnly_def digitsAt_def isDigit_def padStart2_def
  parseInt_def
  MakeDay_def DayFromYear_def daysBeforeMonth_def InLeapYear_def msPerDay_def

lemma normalizeDate_empty: "normalizeDate parseOther [] = None"
  by (simp add: normalizeDate_def)

lemma cleaned_1: "toLowerCase (trim (js ''31.13.2026'')) = js ''31.13.2026''"
  by (simp add: clean_eval)

lemma match_1: "search ddmmyyyy (js ''31.13.2026'') = Some (js ''31'', js ''13'', js ''2026'')"
  by (simp add: match_eval)

lemma date_1:
  "newDate parseOther (js ''2026'' @ js ''-'' @ padStart2 (js ''13'') @ js ''-'' @ padStart2 (js ''31''))
     = InvalidDate"
  by (simp add: iso_eval)

text \<open>
  C8 (the date normalizer returns \<open>null\<close> or a valid date): not so for the text
  \<open>31.13.2026\<close>. The numeric pattern matches, the date is built from
  \<open>2026-13-31\<close>, and the Invalid Date is returned as it is; only the last branch, the
  generic parsing, tests the date it has built and returns \<open>null\<close> for an invalid one.
\<close>

theorem normalizeDate_invalid_date:
  "normalizeDate parseOther (js ''31.13.2026'') = Some InvalidDate"
proof -
  have "js ''31.13.2026'' \<noteq> []"
    by (simp add: js_def)
  then show ?thesis
    by (simp add: normalizeDate_def cleaned_1 match_1 date_1 del: append.simps)
qed

text \<open>
  Further facts about \<open>normalizeDate\<close>: the text \<open>1. September 26\<close> gives
  2026-09-01, the empty text gives \<open>null\<close>, the numeric pattern is tried first, and a
  text that matches no pattern and that the generic parsing rejects gives \<open>null\<close>. A
  month name with a letter outside ASCII is never found by the second pattern, whose
  \<open>\w+\<close> stops at that letter: \<open>1. M\<close>U+00E4\<open>rz 2026\<close> is left to the generic
  parsing.
\<close>

lemma cleaned_2: "toLowerCase (trim (js ''1. September 26'')) = js ''1. september 26''"
  by (simp add: clean_eval)

lemma match_2a: "search ddmmyyyy (js ''1. september 26'') = None"
  by (simp add: match_eval)

lemma match_2b:
  "search dayMonthYear (js ''1. september 26'') = Some (js ''1'', js ''september'', js ''26'')"
  by (simp add: match_eval)

lemma month_2: "monthNames (js ''september'') = Some (MonthNum 9)"
  by (simp add: monthNames_def kw_maerz_def kw_maer_def js_def)

lemma year_2: "parseInt (js ''26'') = 26" "String_of 2026 = js ''2026''" "String_of 9 = js ''9''"
  by (simp_all add: js_def parseInt_def String_of.simps)

lemma date_2:
  "newDate parseOther (js ''2026'' @ js ''-'' @ padStart2 (js ''9'') @ js ''-'' @ padStart2 (js ''1''))
     = DateAt 1788220800000"
  by (simp add: iso_eval)

lemma normalizeDate_textual:
  "normalizeDate parseOther (js ''1. September 26'') = Some (DateAt (msPerDay * MakeDay 2026 9 1))"
proof -
  have "js ''1. September 26'' \<noteq> []"
    by (simp add: js_def)
  moreover have "msPerDay * MakeDay 2026 9 1 = 1788220800000"
    by (simp add: iso_eval)
  ultimately show ?thesis
    by (simp add: normalizeDate_def cleaned_2 match_2a match_2b month_2 year_2 date_2
             del: append.simps)
qed

lemma normalizeDate_numeric_first:
  assumes "dateStr \<noteq> []"
    and "search ddmmyyyy (toLowerCase (trim dateStr)) = Some (day, month, year)"
  shows "normalizeDate parseOther dateStr
         = Some (newDate parseOther (year @ js ''-'' @ padStart2 month @ js ''-'' @ padStart2 day))"
  using assms by (simp add: normalizeDate_def)

lemma normalizeDate_no_pattern:
  assumes "search ddmmyyyy (toLowerCase (trim dateStr)) = None"
    and "search dayMonthYear (toLowerCase (trim dateStr)) = None"
    and "newDate parseOther (toLowerCase (trim dateStr)) = InvalidDate"
  shows "normalizeDate parseOther dateStr = None"
  using assms by (simp add: normalizeDate_def)

lemma cleaned_3:
  "toLowerCase (trim (js ''1. M'' @ [228] @ js ''rz 2026'')) = js ''1. m'' @ [228] @ js ''rz 2026''"
  by (simp add: clean_eval)

lemma match_3a: "search ddmmyyyy (js ''1. m'' @ [228] @ js ''rz 2026'') = None"
  by (simp add: match_eval)

lemma match_3b: "search dayMonthYear (js ''1. m'' @ [228] @ js ''rz 2026'') = None"
  by (simp add: match_eval)

lemma iso_3: "isoDateOnly (js ''1. m'' @ [228] @ js ''rz 2026'') = None"
  by (simp add: isoDateOnly_def js_def)

lemma normalizeDate_maerz:
  "normalizeDate parseOther (js ''1. M'' @ [228] @ js ''rz 2026'')
   = (case parseOther (js ''1. m'' @ [228] @ js ''rz 2026'') of
        InvalidDate \<Rightarrow> None | DateAt t \<Rightarrow> Some (DateAt t))"
proof -
  have "js ''1. M'' @ [228] @ js ''rz 2026'' \<noteq> []"
    by (simp add: js_def)
  then show ?thesis
    by (simp add: normalizeDate_def cleaned_3 match_3a match_3b newDate_def iso_3 del: append.simps)
qed

end
